theory Spec2Isabelle
  imports Complex_Main "HOL-Library.Word" "HOL-Library.Char_ord" "HOL-Library.List_Lexorder"
begin

unbundle bit_operations_syntax

section \<open>Error taxonomy\<close>

text \<open>
  Go strings are byte sequences; they are modelled as \<open>string\<close> (a list of 8-bit
  characters). Go's \<open>int\<close> is modelled as \<open>int\<close>: no arithmetic is done on status
  codes, they are only compared and printed. An underlying cause (an arbitrary Go
  \<open>error\<close>) is represented by its text; \<open>None\<close> is \<open>nil\<close>.
\<close>

record APIError =
  Code :: int
  Message :: string
  Details :: string

text \<open>\<open>BagelPayError\<close>: the base error, a message and an optional cause.\<close>

record BagelPayError =
  err_Message :: string
  err_Cause :: "string option"

text \<open>
  \<open>BagelPayAPIError\<close> embeds \<open>*BagelPayError\<close> and adds three fields; the embedding is
  the record extension.
\<close>

record BagelPayAPIError = BagelPayError +
  StatusCode :: int
  ErrorCode :: string
  APIErr :: "APIError option"

text \<open>
  A value of Go's interface type \<open>error\<close> carries its dynamic type. The five
  specialised structs each embed \<open>*BagelPayAPIError\<close> and have no field of their own, so
  a non-nil error value is one constructor (the dynamic type) around the fields.
  \<open>OtherError\<close> stands for an error of any type declared outside this package.
\<close>

datatype error =
    PBagelPayError BagelPayError
  | PBagelPayAPIError BagelPayAPIError
  | PBagelPayAuthenticationError BagelPayAPIError
  | PBagelPayValidationError BagelPayAPIError
  | PBagelPayNotFoundError BagelPayAPIError
  | PBagelPayRateLimitError BagelPayAPIError
  | PBagelPayServerError BagelPayAPIError
  | OtherError string

definition StatusBadRequest :: int where "StatusBadRequest = 400"
definition StatusUnauthorized :: int where "StatusUnauthorized = 401"
definition StatusNotFound :: int where "StatusNotFound = 404"
definition StatusTooManyRequests :: int where "StatusTooManyRequests = 429"
definition StatusInternalServerError :: int where "StatusInternalServerError = 500"

text \<open>\<open>fmt.Sprintf("%d", n)\<close> and \<open>strconv.Itoa\<close>: the decimal text of an integer.\<close>

fun nat_decimal :: "nat \<Rightarrow> string" where
  "nat_decimal n =
     (if n < 10 then [''0123456789'' ! n]
      else nat_decimal (n div 10) @ [''0123456789'' ! (n mod 10)])"

definition Itoa :: "int \<Rightarrow> string" where
  "Itoa i = (if i < 0 then CHR ''-'' # nat_decimal (nat (- i)) else nat_decimal (nat i))"

definition NewBagelPayError :: "string \<Rightarrow> string option \<Rightarrow> BagelPayError" where
  "NewBagelPayError message cause = \<lparr>err_Message = message, err_Cause = cause\<rparr>"

definition NewBagelPayAPIError ::
  "int \<Rightarrow> APIError option \<Rightarrow> string option \<Rightarrow> BagelPayAPIError" where
  "NewBagelPayAPIError statusCode apiError cause =
     (let message = (case apiError of None \<Rightarrow> ''API request failed'' | Some a \<Rightarrow> Message a);
          errorCode = (case apiError of None \<Rightarrow> ''''
                       | Some a \<Rightarrow> if Code a \<noteq> 0 then Itoa (Code a) else '''')
      in BagelPayError.extend (NewBagelPayError message cause)
           (BagelPayAPIError.fields statusCode errorCode apiError))"

text \<open>
  The five full constructors share one body; they differ in the default status code
  used when the caller passes 0, and in the struct they wrap the fields in.
\<close>

definition api_error_fields ::
  "int \<Rightarrow> string \<Rightarrow> int \<Rightarrow> string \<Rightarrow> APIError option \<Rightarrow> string option \<Rightarrow> BagelPayAPIError" where
  "api_error_fields dflt message statusCode errorCode apiError cause =
     BagelPayError.extend (NewBagelPayError message cause)
       (BagelPayAPIError.fields (if statusCode = 0 then dflt else statusCode) errorCode apiError)"

definition NewBagelPayAuthenticationError ::
  "string \<Rightarrow> int \<Rightarrow> string \<Rightarrow> APIError option \<Rightarrow> string option \<Rightarrow> error" where
  "NewBagelPayAuthenticationError message statusCode errorCode apiError cause =
     PBagelPayAuthenticationError
       (api_error_fields StatusUnauthorized message statusCode errorCode apiError cause)"

definition NewBagelPayValidationError ::
  "string \<Rightarrow> int \<Rightarrow> string \<Rightarrow> APIError option \<Rightarrow> string option \<Rightarrow> error" where
  "NewBagelPayValidationError message statusCode errorCode apiError cause =
     PBagelPayValidationError
       (api_error_fields StatusBadRequest message statusCode errorCode apiError cause)"

definition NewBagelPayNotFoundError ::
  "string \<Rightarrow> int \<Rightarrow> string \<Rightarrow> APIError option \<Rightarrow> string option \<Rightarrow> error" where
  "NewBagelPayNotFoundError message statusCode errorCode apiError cause =
     PBagelPayNotFoundError
       (api_error_fields StatusNotFound message statusCode errorCode apiError cause)"

definition NewBagelPayRateLimitError ::
  "string \<Rightarrow> int \<Rightarrow> string \<Rightarrow> APIError option \<Rightarrow> string option \<Rightarrow> error" where
  "NewBagelPayRateLimitError message statusCode errorCode apiError cause =
     PBagelPayRateLimitError
       (api_error_fields StatusTooManyRequests message statusCode errorCode apiError cause)"

definition NewBagelPayServerError ::
  "string \<Rightarrow> int \<Rightarrow> string \<Rightarrow> APIError option \<Rightarrow> string option \<Rightarrow> error" where
  "NewBagelPayServerError message statusCode errorCode apiError cause =
     PBagelPayServerError
       (api_error_fields StatusInternalServerError message statusCode errorCode apiError cause)"

text \<open>The \<open>Simple\<close> constructors pass an empty error code and a nil payload.\<close>

definition NewBagelPayAuthenticationErrorSimple :: "string \<Rightarrow> string option \<Rightarrow> error" where
  "NewBagelPayAuthenticationErrorSimple message cause =
     NewBagelPayAuthenticationError message StatusUnauthorized '''' None cause"

definition NewBagelPayValidationErrorSimple :: "string \<Rightarrow> string option \<Rightarrow> error" where
  "NewBagelPayValidationErrorSimple message cause =
     NewBagelPayValidationError message StatusBadRequest '''' None cause"

definition NewBagelPayNotFoundErrorSimple :: "string \<Rightarrow> string option \<Rightarrow> error" where
  "NewBagelPayNotFoundErrorSimple message cause =
     NewBagelPayNotFoundError message StatusNotFound '''' None cause"

definition NewBagelPayRateLimitErrorSimple :: "string \<Rightarrow> string option \<Rightarrow> error" where
  "NewBagelPayRateLimitErrorSimple message cause =
     NewBagelPayRateLimitError message StatusTooManyRequests '''' None cause"

definition NewBagelPayServerErrorSimple :: "int \<Rightarrow> string \<Rightarrow> string option \<Rightarrow> error" where
  "NewBagelPayServerErrorSimple statusCode message cause =
     NewBagelPayServerError message statusCode '''' None cause"

text \<open>
  The type-test predicates. \<open>_, ok := err.(*T)\<close> is a type assertion to a concrete
  pointer type: \<open>ok\<close> holds exactly when the dynamic type of \<open>err\<close> is \<open>*T\<close> itself;
  a struct that embeds \<open>*T\<close> is a different type. A nil error (\<open>None\<close>) has no dynamic
  type, so every assertion fails on it.
\<close>

fun IsAuthenticationError :: "error option \<Rightarrow> bool" where
  "IsAuthenticationError (Some (PBagelPayAuthenticationError _)) = True"
| "IsAuthenticationError _ = False"

fun IsValidationError :: "error option \<Rightarrow> bool" where
  "IsValidationError (Some (PBagelPayValidationError _)) = True"
| "IsValidationError _ = False"

fun IsNotFoundError :: "error option \<Rightarrow> bool" where
  "IsNotFoundError (Some (PBagelPayNotFoundError _)) = True"
| "IsNotFoundError _ = False"

fun IsRateLimitError :: "error option \<Rightarrow> bool" where
  "IsRateLimitError (Some (PBagelPayRateLimitError _)) = True"
| "IsRateLimitError _ = False"

fun IsServerError :: "error option \<Rightarrow> bool" where
  "IsServerError (Some (PBagelPayServerError _)) = True"
| "IsServerError _ = False"

fun IsAPIError :: "error option \<Rightarrow> bool" where
  "IsAPIError (Some (PBagelPayAPIError _)) = True"
| "IsAPIError _ = False"

section \<open>Response handling (client.go)\<close>

text \<open>
  An \<open>*http.Response\<close> as \<open>handleResponse\<close> uses it: the status code and the body
  stream. \<open>io.ReadAll(resp.Body)\<close> either fails (\<open>Inl\<close>, the text of the I/O error) or
  yields the bytes of the body (\<open>Inr\<close>).
\<close>

record Response =
  resp_StatusCode :: int
  resp_Body :: "string + string"

text \<open>
  \<open>handleResponse\<close>. The two calls of \<open>json.Unmarshal\<close> belong to Go's standard
  library and are parameters: \<open>unmarshalErr body\<close> is the \<open>APIError\<close> decoded from the
  body, or \<open>None\<close> when \<open>json.Unmarshal\<close> returns an error; \<open>result\<close> is \<open>None\<close> for
  a nil target and otherwise the decoder of the target's type, which returns \<open>Inl\<close> with
  the text of the decoding error or \<open>Inr\<close> with the decoded value. The function returns
  \<open>Inl\<close> with the error, or \<open>Inr\<close> with what was stored in the target.
  \<open>fallbackAPIError\<close> is the composite literal built when the body does not decode
  (\<open>Details\<close> keeps its zero value).
\<close>

definition fallbackAPIError :: "int \<Rightarrow> string \<Rightarrow> APIError" where
  "fallbackAPIError status body =
     \<lparr>Code = status, Message = ''HTTP '' @ Itoa status @ '': '' @ body, Details = ''''\<rparr>"

definition handleResponse ::
  "(string \<Rightarrow> APIError option) \<Rightarrow> (string \<Rightarrow> string + 'r) option \<Rightarrow> Response
     \<Rightarrow> error + 'r option" where
  "handleResponse unmarshalErr result resp =
     (case resp_Body resp of
        Inl e \<Rightarrow> Inl (PBagelPayError (NewBagelPayError ''failed to read response body'' (Some e)))
      | Inr body \<Rightarrow>
          if resp_StatusCode resp \<ge> 400 then
            (let apiError =
                   (case unmarshalErr body of
                      None \<Rightarrow> fallbackAPIError (resp_StatusCode resp) body
                    | Some a \<Rightarrow> a)
             in if resp_StatusCode resp = StatusUnauthorized then
                  Inl (NewBagelPayAuthenticationErrorSimple (Message apiError) None)
                else if resp_StatusCode resp = StatusBadRequest then
                  Inl (NewBagelPayValidationErrorSimple (Message apiError) None)
                else if resp_StatusCode resp = StatusNotFound then
                  Inl (NewBagelPayNotFoundErrorSimple (Message apiError) None)
                else if resp_StatusCode resp = StatusTooManyRequests then
                  Inl (NewBagelPayRateLimitErrorSimple (Message apiError) None)
                else if resp_StatusCode resp \<ge> 500 then
                  Inl (NewBagelPayServerErrorSimple (resp_StatusCode resp) (Message apiError) None)
                else
                  Inl (PBagelPayAPIError
                         (NewBagelPayAPIError (resp_StatusCode resp) (Some apiError) None)))
          else
            (case result of
               None \<Rightarrow> Inr None
             | Some decode \<Rightarrow>
                 (case decode body of
                    Inl e \<Rightarrow> Inl (PBagelPayError (NewBagelPayError ''failed to parse response'' (Some e)))
                  | Inr v \<Rightarrow> Inr (Some v))))"

text \<open>
  The fields that Go promotes through the embedded \<open>*BagelPayAPIError\<close>
  (\<open>e.Message\<close>, \<open>e.StatusCode\<close>, \<open>e.ErrorCode\<close>, \<open>e.APIError\<close>): present for the six
  API error types, absent for the base error and for foreign errors.
\<close>

fun api_fields :: "error \<Rightarrow> BagelPayAPIError option" where
  "api_fields (PBagelPayAPIError f) = Some f"
| "api_fields (PBagelPayAuthenticationError f) = Some f"
| "api_fields (PBagelPayValidationError f) = Some f"
| "api_fields (PBagelPayNotFoundError f) = Some f"
| "api_fields (PBagelPayRateLimitError f) = Some f"
| "api_fields (PBagelPayServerError f) = Some f"
| "api_fields (PBagelPayError _) = None"
| "api_fields (OtherError _) = None"

section \<open>Client construction (client.go)\<close>

text \<open>
  \<open>time.Duration\<close> is a count of nanoseconds. Of \<open>http.Client\<close> only the timeout
  matters here; a zero timeout means that requests never time out.
\<close>

definition Second :: int where "Second = 1000000000"

record http_Client =
  client_Timeout :: int

record ClientConfig =
  APIKey :: string
  TestMode :: bool
  BaseURL :: string
  Timeout :: int
  HTTPClient :: "http_Client option"

record BagelPayClient =
  baseURL :: string
  apiKey :: string
  httpClient :: http_Client

text \<open>\<open>strings.HasSuffix\<close> and \<open>strings.TrimSuffix\<close>.\<close>

definition HasSuffix :: "string \<Rightarrow> string \<Rightarrow> bool" where
  "HasSuffix s suffix \<longleftrightarrow>
     length s \<ge> length suffix \<and> drop (length s - length suffix) s = suffix"

definition TrimSuffix :: "string \<Rightarrow> string \<Rightarrow> string" where
  "TrimSuffix s suffix =
     (if HasSuffix s suffix then take (length s - length suffix) s else s)"

definition NewClient :: "ClientConfig \<Rightarrow> BagelPayClient" where
  "NewClient config =
     (let baseURL0 = BaseURL config;
          baseURL1 = (if baseURL0 = '''' then
                        (if TestMode config then ''https://test.bagelpay.io''
                         else ''https://live.bagelpay.io'')
                      else baseURL0);
          baseURL2 = TrimSuffix baseURL1 ''/'';
          timeout0 = Timeout config;
          timeout1 = (if timeout0 = 0 then 30 * Second else timeout0);
          client = (case HTTPClient config of
                      None \<Rightarrow> \<lparr>client_Timeout = timeout1\<rparr>
                    | Some h \<Rightarrow> h)
      in \<lparr>baseURL = baseURL2, apiKey = APIKey config, httpClient = client\<rparr>)"

section \<open>Webhook signature verification\<close>

text \<open>
  In this part Go strings and byte slices are both lists of bytes: the conversions
  \<open>string(payload)\<close> and \<open>[]byte(s)\<close> copy the bytes unchanged, and
  \<open>fmt.Sprintf("%s.%s", a, b)\<close> writes the bytes of \<open>a\<close>, a full stop and the bytes of
  \<open>b\<close>.
\<close>

type_synonym bytes = "8 word list"

text \<open>
  \<open>hex.EncodeToString\<close>: two characters of \<open>hextable\<close> for every byte, the high
  nibble first.
\<close>

definition hextable :: bytes where
  "hextable = [48, 49, 50, 51, 52, 53, 54, 55, 56, 57, 97, 98, 99, 100, 101, 102]"

fun EncodeToString :: "bytes \<Rightarrow> bytes" where
  "EncodeToString [] = []"
| "EncodeToString (v # src) =
     hextable ! unat (drop_bit 4 v) # hextable ! unat (v AND 15) # EncodeToString src"

text \<open>
  \<open>hmac.Equal\<close> is \<open>subtle.ConstantTimeCompare(mac1, mac2) == 1\<close>. The comparison
  returns 0 for different lengths; otherwise it ORs the XOR of every pair of bytes into
  one byte and tests that byte against 0 with \<open>ConstantTimeByteEq\<close>, which computes
  \<open>int((uint32(x^y) - 1) >> 31)\<close>.
\<close>

fun xor_accumulate :: "8 word \<Rightarrow> bytes \<Rightarrow> bytes \<Rightarrow> 8 word" where
  "xor_accumulate v (a # x) (b # y) = xor_accumulate (v OR (a XOR b)) x y"
| "xor_accumulate v _ _ = v"

definition ConstantTimeByteEq :: "8 word \<Rightarrow> 8 word \<Rightarrow> int" where
  "ConstantTimeByteEq x y = uint (drop_bit 31 ((ucast (x XOR y) :: 32 word) - 1))"

definition ConstantTimeCompare :: "bytes \<Rightarrow> bytes \<Rightarrow> int" where
  "ConstantTimeCompare x y =
     (if length x \<noteq> length y then 0 else ConstantTimeByteEq (xor_accumulate 0 x y) 0)"

definition hmac_Equal :: "bytes \<Rightarrow> bytes \<Rightarrow> bool" where
  "hmac_Equal mac1 mac2 \<longleftrightarrow> ConstantTimeCompare mac1 mac2 = 1"

text \<open>
  \<open>verifyWebhookSignature\<close>. HMAC-SHA256 belongs to Go's standard library
  (\<open>crypto/hmac\<close>, \<open>crypto/sha256\<close>) and is the parameter \<open>hmac_sha256\<close>, from the key
  and the message to the digest.
\<close>

definition verifyWebhookSignature ::
  "(bytes \<Rightarrow> bytes \<Rightarrow> bytes) \<Rightarrow> bytes \<Rightarrow> bytes \<Rightarrow> bytes \<Rightarrow> bytes \<Rightarrow> bool" where
  "verifyWebhookSignature hmac_sha256 payload timestamp signature secret =
     (let signatureData = timestamp @ [46] @ payload;
          expectedSignature = EncodeToString (hmac_sha256 secret signatureData)
      in hmac_Equal expectedSignature signature)"

section \<open>Request URLs (client.go)\<close>

text \<open>
  \<open>strings.Cut\<close> with a separator of one byte: the text before the first separator, the
  text after it, and whether it was found.
\<close>

definition Cut :: "string \<Rightarrow> char \<Rightarrow> string \<times> string \<times> bool" where
  "Cut s sep =
     (if sep \<in> set s
      then (takeWhile (\<lambda>c. c \<noteq> sep) s, tl (dropWhile (\<lambda>c. c \<noteq> sep) s), True)
      else (s, '''', False))"

text \<open>
  The \<open>url.URL\<close> that \<open>makeRequest\<close> builds. \<open>Prefix\<close> is the text that
  \<open>url.Parse\<close> takes apart into scheme, authority and path (what is written before
  the first \<open>?\<close> and \<open>#\<close>), \<open>RawQuery\<close> the text after the first question mark
  and \<open>RawFragment\<close> the text after the first hash.
\<close>

record URL =
  Prefix :: string
  ForceQuery :: bool
  RawQuery :: string
  RawFragment :: string

text \<open>
  \<open>url.Parse\<close> (Go's standard library), restricted to the way it splits the text: the
  fragment is cut off at the first \<open>#\<close>, then the query at the first \<open>?\<close> (a single
  \<open>?\<close> at the very end only sets \<open>ForceQuery\<close>). Every error it can return (control
  characters, a malformed scheme, authority or percent-escape) is left to the parameter
  \<open>invalid\<close>, which gives the text of the error for a URL that is refused.
\<close>

definition url_Parse :: "(string \<Rightarrow> string option) \<Rightarrow> string \<Rightarrow> string + URL" where
  "url_Parse invalid rawURL =
     (case invalid rawURL of
        Some e \<Rightarrow> Inl e
      | None \<Rightarrow>
          (case Cut rawURL CHR ''#'' of (u, frag, _) \<Rightarrow>
             if HasSuffix u ''?'' \<and> count_list u CHR ''?'' = 1
             then Inr \<lparr>Prefix = take (length u - 1) u, ForceQuery = True,
                       RawQuery = '''', RawFragment = frag\<rparr>
             else (case Cut u CHR ''?'' of (rest, query, _) \<Rightarrow>
                     Inr \<lparr>Prefix = rest, ForceQuery = False,
                          RawQuery = query, RawFragment = frag\<rparr>)))"

text \<open>
  \<open>URL.String\<close> writes the URL back: scheme, authority and path, then \<open>?\<close> and
  the raw query if there is one (or \<open>ForceQuery\<close> is set), then \<open>#\<close> and the
  fragment if it is not empty. The query is written as it is. What is written for scheme,
  authority and path (the scheme in lower case, host and path percent-encoded where they
  hold bytes that need it, so that a space in the path is written \<open>%20\<close>) and for
  the fragment belongs to the library and is given by the parameters \<open>write_head\<close> and
  \<open>write_fragment\<close>.
\<close>

record url_library =
  invalid :: "string \<Rightarrow> string option"
  write_head :: "string \<Rightarrow> string"
  write_fragment :: "string \<Rightarrow> string"

definition URL_String :: "url_library \<Rightarrow> URL \<Rightarrow> string" where
  "URL_String lib u =
     write_head lib (Prefix u)
     @ (if ForceQuery u \<or> RawQuery u \<noteq> '''' then ''?'' @ RawQuery u else '''')
     @ (if RawFragment u \<noteq> '''' then ''#'' @ write_fragment lib (RawFragment u) else '''')"

text \<open>
  \<open>url.Values\<close> is \<open>map[string][]string\<close>: an association list with one entry for a key.
  \<open>v[key]\<close> is the empty slice for a missing key; \<open>Add\<close> appends to it.
\<close>

type_synonym Values = "(string \<times> string list) list"

definition values_of :: "Values \<Rightarrow> string \<Rightarrow> string list" where
  "values_of v key = (case map_of v key of None \<Rightarrow> [] | Some xs \<Rightarrow> xs)"

fun Add :: "Values \<Rightarrow> string \<Rightarrow> string \<Rightarrow> Values" where
  "Add [] key value = [(key, [value])]"
| "Add ((k, xs) # v) key value =
     (if k = key then (k, xs @ [value]) # v else (k, xs) # Add v key value)"

text \<open>
  \<open>url.QueryUnescape\<close>: \<open>+\<close> becomes a space and \<open>%XX\<close> the byte with that code; a
  \<open>%\<close> that is not followed by two hexadecimal digits is an error (\<open>None\<close>).
\<close>

definition ishex :: "char \<Rightarrow> bool" where
  "ishex c \<longleftrightarrow> c \<in> set ''0123456789abcdefABCDEF''"

definition unhex :: "char \<Rightarrow> nat" where
  "unhex c =
     (if CHR ''0'' \<le> c \<and> c \<le> CHR ''9'' then of_char c - of_char CHR ''0''
      else if CHR ''a'' \<le> c \<and> c \<le> CHR ''f'' then of_char c - of_char CHR ''a'' + 10
      else if CHR ''A'' \<le> c \<and> c \<le> CHR ''F'' then of_char c - of_char CHR ''A'' + 10
      else 0)"

fun QueryUnescape :: "string \<Rightarrow> string option" where
  "QueryUnescape [] = Some []"
| "QueryUnescape (c # s) =
     (if c = CHR ''%'' then
        (case s of
           h # l # rest \<Rightarrow>
             if ishex h \<and> ishex l
             then map_option ((#) (char_of (unhex h * 16 + unhex l))) (QueryUnescape rest)
             else None
         | _ \<Rightarrow> None)
      else if c = CHR ''+'' then map_option ((#) CHR '' '') (QueryUnescape s)
      else map_option ((#) c) (QueryUnescape s))"

text \<open>
  \<open>u.Query()\<close> is \<open>url.ParseQuery(u.RawQuery)\<close> with the error dropped: the query is
  cut at every \<open>&\<close>; a piece that is empty, contains a semicolon or does not unescape is
  skipped; every other piece is cut at its first \<open>=\<close> and added.
\<close>

fun split_on :: "char \<Rightarrow> string \<Rightarrow> string list" where
  "split_on sep [] = [[]]"
| "split_on sep (c # s) =
     (if c = sep then [] # split_on sep s
      else (case split_on sep s of p # ps \<Rightarrow> (c # p) # ps | [] \<Rightarrow> [[c]]))"

definition parse_pair :: "Values \<Rightarrow> string \<Rightarrow> Values" where
  "parse_pair m piece =
     (if CHR '';'' \<in> set piece then m
      else if piece = '''' then m
      else (case Cut piece CHR ''='' of (key, value, _) \<Rightarrow>
              (case QueryUnescape key of
                 None \<Rightarrow> m
               | Some key1 \<Rightarrow>
                   (case QueryUnescape value of
                      None \<Rightarrow> m
                    | Some value1 \<Rightarrow> Add m key1 value1))))"

definition ParseQuery :: "string \<Rightarrow> Values" where
  "ParseQuery query = foldl parse_pair [] (split_on CHR ''&'' query)"

text \<open>
  \<open>url.QueryEscape\<close>: letters, digits and \<open>-_.~\<close> stay, a space becomes \<open>+\<close>, every
  other byte becomes \<open>%XX\<close> in upper-case hexadecimal.
\<close>

definition shouldEscape :: "char \<Rightarrow> bool" where
  "shouldEscape c =
     (if (CHR ''a'' \<le> c \<and> c \<le> CHR ''z'') \<or> (CHR ''A'' \<le> c \<and> c \<le> CHR ''Z'')
          \<or> (CHR ''0'' \<le> c \<and> c \<le> CHR ''9'') then False
      else if c \<in> set ''-_.~'' then False
      else True)"

definition escape_byte :: "char \<Rightarrow> string" where
  "escape_byte c =
     (if shouldEscape c then
        (if c = CHR '' '' then ''+''
         else [CHR ''%'', ''0123456789ABCDEF'' ! (of_char c div 16),
               ''0123456789ABCDEF'' ! (of_char c mod 16)])
      else [c])"

definition QueryEscape :: "string \<Rightarrow> string" where
  "QueryEscape s = concat (map escape_byte s)"

text \<open>
  \<open>Values.Encode\<close>: the keys in sorted order, and for every key its values in order,
  each written as \<open>key=value\<close> (both escaped), joined by \<open>&\<close>.
\<close>

definition encode_pairs :: "Values \<Rightarrow> (string \<times> string) list" where
  "encode_pairs v = concat (map (\<lambda>(k, xs). map (Pair k) xs) (sort_key fst v))"

fun join_amp :: "string list \<Rightarrow> string" where
  "join_amp [] = ''''"
| "join_amp [x] = x"
| "join_amp (x # y # ys) = x @ ''&'' @ join_amp (y # ys)"

definition Encode :: "Values \<Rightarrow> string" where
  "Encode v = join_amp (map (\<lambda>(k, x). QueryEscape k @ ''='' @ QueryEscape x) (encode_pairs v))"

text \<open>
  The URL of \<open>makeRequest\<close>. \<open>params\<close> is \<open>None\<close> for a nil map; for a map, \<open>keys\<close>
  is the order in which \<open>range\<close> happens to visit its keys (Go leaves the order open). A
  parameter with an empty value is skipped. \<open>makeRequest_u\<close> is the value of \<open>u\<close> after
  the query parameters have been added, and \<open>makeRequest_url\<close> is \<open>u.String()\<close>, the
  text with which the request is created.
\<close>

definition add_param :: "(string \<rightharpoonup> string) \<Rightarrow> Values \<Rightarrow> string \<Rightarrow> Values" where
  "add_param params q key =
     (case params key of
        None \<Rightarrow> q
      | Some value \<Rightarrow> if value \<noteq> '''' then Add q key value else q)"

definition makeRequest_query :: "(string \<rightharpoonup> string) \<Rightarrow> Values \<Rightarrow> string list \<Rightarrow> Values" where
  "makeRequest_query params q keys = foldl (add_param params) q keys"

definition makeRequest_u ::
  "url_library \<Rightarrow> BagelPayClient \<Rightarrow> string \<Rightarrow> (string \<rightharpoonup> string) option
     \<Rightarrow> string list \<Rightarrow> error + URL" where
  "makeRequest_u lib c endpoint params keys =
     (case url_Parse (invalid lib) (baseURL c @ endpoint) of
        Inl e \<Rightarrow> Inl (PBagelPayError (NewBagelPayError ''invalid URL'' (Some e)))
      | Inr u \<Rightarrow>
          (case params of
             None \<Rightarrow> Inr u
           | Some m \<Rightarrow>
               Inr (u\<lparr>RawQuery := Encode (makeRequest_query m (ParseQuery (RawQuery u)) keys)\<rparr>)))"

definition makeRequest_url ::
  "url_library \<Rightarrow> BagelPayClient \<Rightarrow> string \<Rightarrow> (string \<rightharpoonup> string) option
     \<Rightarrow> string list \<Rightarrow> error + string" where
  "makeRequest_url lib c endpoint params keys =
     (case makeRequest_u lib c endpoint params keys of
        Inl e \<Rightarrow> Inl e
      | Inr u \<Rightarrow> Inr (URL_String lib u))"











text \<open>
  The list operations build the same parameter map: \<open>pageSize\<close> and \<open>pageNum\<close> are set
  only when positive. They differ in the endpoint.
\<close>

definition list_params :: "int \<Rightarrow> int \<Rightarrow> (string \<rightharpoonup> string)" where
  "list_params pageNum pageSize =
     (let params0 = Map.empty;
          params1 = (if pageSize > 0 then params0(''pageSize'' \<mapsto> Itoa pageSize) else params0);
          params2 = (if pageNum > 0 then params1(''pageNum'' \<mapsto> Itoa pageNum) else params1)
      in params2)"

definition ListProducts_url ::
  "url_library \<Rightarrow> BagelPayClient \<Rightarrow> int \<Rightarrow> int \<Rightarrow> string list \<Rightarrow> error + string" where
  "ListProducts_url lib c pageNum pageSize keys =
     makeRequest_url lib c ''/api/products/list'' (Some (list_params pageNum pageSize)) keys"

definition ListTransactions_url ::
  "url_library \<Rightarrow> BagelPayClient \<Rightarrow> int \<Rightarrow> int \<Rightarrow> string list \<Rightarrow> error + string" where
  "ListTransactions_url lib c pageNum pageSize keys =
     makeRequest_url lib c ''/api/transactions/list'' (Some (list_params pageNum pageSize)) keys"

definition ListSubscriptions_url ::
  "url_library \<Rightarrow> BagelPayClient \<Rightarrow> int \<Rightarrow> int \<Rightarrow> string list \<Rightarrow> error + string" where
  "ListSubscriptions_url lib c pageNum pageSize keys =
     makeRequest_url lib c ''/api/subscriptions/list'' (Some (list_params pageNum pageSize)) keys"

definition ListCustomers_url ::
  "url_library \<Rightarrow> BagelPayClient \<Rightarrow> int \<Rightarrow> int \<Rightarrow> string list \<Rightarrow> error + string" where
  "ListCustomers_url lib c pageNum pageSize keys =
     makeRequest_url lib c ''/api/customers/list'' (Some (list_params pageNum pageSize)) keys"

section \<open>JSON serialization of the models\<close>

text \<open>
  \<open>ToJSON\<close> is \<open>json.Marshal\<close> and \<open>FromJSON\<close> is \<open>json.Unmarshal\<close>; both work by
  reflection on the struct declarations and their tags. The part of \<open>encoding/json\<close>
  that the models exercise is modelled here, over a small universe of Go types and values.
  A JSON text is represented by the document it denotes, with object members in the order
  they are written, and a number by its value; \<open>float64\<close> values are the finite
  rationals and the three values that have no JSON form.
\<close>

datatype json =
    JNull
  | JBool bool
  | JNumber rat
  | JString string
  | JArray "json list"
  | JObject "(string \<times> json) list"

datatype float64 = Finite rat | NaN | PosInf | NegInf

datatype gtype =
    TString
  | TInt
  | TBool
  | TFloat64
  | TPtr gtype
  | TSlice gtype
  | TMap
  | TStruct "(string \<times> bool \<times> gtype) list"

datatype gval =
    VString string
  | VInt int
  | VBool bool
  | VFloat64 float64
  | VNil
  | VPtr gval
  | VSlice "gval list"
  | VMap "(string \<times> gval) list"
  | VStruct "gval list"

text \<open>
  The zero value of a type, and \<open>isEmptyValue\<close>, which decides whether a field tagged
  \<open>omitempty\<close> is left out: false, 0, a nil pointer, and an empty string, slice or map.
\<close>

fun zero :: "gtype \<Rightarrow> gval" where
  "zero TString = VString ''''"
| "zero TInt = VInt 0"
| "zero TBool = VBool False"
| "zero TFloat64 = VFloat64 (Finite 0)"
| "zero (TPtr t) = VNil"
| "zero (TSlice t) = VNil"
| "zero TMap = VNil"
| "zero (TStruct fs) = VStruct (map (\<lambda>f. zero (snd (snd f))) fs)"

fun isEmptyValue :: "gval \<Rightarrow> bool" where
  "isEmptyValue (VString s) = (s = '''')"
| "isEmptyValue (VInt i) = (i = 0)"
| "isEmptyValue (VBool b) = (\<not> b)"
| "isEmptyValue (VFloat64 f) = (f = Finite 0)"
| "isEmptyValue VNil = True"
| "isEmptyValue (VPtr v) = False"
| "isEmptyValue (VSlice vs) = (vs = [])"
| "isEmptyValue (VMap m) = (m = [])"
| "isEmptyValue (VStruct vs) = False"

text \<open>
  Encoding the value held by an \<open>interface{}\<close> follows its dynamic type. A map is written
  with its keys sorted. A struct or pointer inside an \<open>interface{}\<close> does not occur in
  the models' metadata and is not modelled (\<open>None\<close> stands for an error of \<open>Marshal\<close>).
\<close>

fun marshal_iface :: "gval \<Rightarrow> json option"
  and marshal_iface_list :: "gval list \<Rightarrow> json list option"
  and marshal_iface_members :: "(string \<times> gval) list \<Rightarrow> (string \<times> json) list option" where
  "marshal_iface VNil = Some JNull"
| "marshal_iface (VString s) = Some (JString s)"
| "marshal_iface (VInt i) = Some (JNumber (of_int i))"
| "marshal_iface (VBool b) = Some (JBool b)"
| "marshal_iface (VFloat64 f) = (case f of Finite r \<Rightarrow> Some (JNumber r) | _ \<Rightarrow> None)"
| "marshal_iface (VPtr v) = marshal_iface v"
| "marshal_iface (VSlice vs) = map_option JArray (marshal_iface_list vs)"
| "marshal_iface (VMap m) =
     map_option (\<lambda>ms. JObject (sort_key fst ms)) (marshal_iface_members m)"
| "marshal_iface (VStruct vs) = None"
| "marshal_iface_list [] = Some []"
| "marshal_iface_list (v # vs) =
     (case marshal_iface v of
        None \<Rightarrow> None
      | Some j \<Rightarrow> map_option ((#) j) (marshal_iface_list vs))"
| "marshal_iface_members [] = Some []"
| "marshal_iface_members (kv # m) =
     (case marshal_iface (snd kv) of
        None \<Rightarrow> None
      | Some j \<Rightarrow> map_option ((#) (fst kv, j)) (marshal_iface_members m))"


text \<open>
  Encoding a value of a declared type. A field of a struct is a triple of its JSON key,
  its \<open>omitempty\<close> flag and its type; \<open>TMap\<close> is \<open>map[string]interface{}\<close>. A nil
  pointer, slice or map is written as \<open>null\<close>; a float that is not finite is an error.
\<close>

fun marshal :: "gtype \<Rightarrow> gval \<Rightarrow> json option"
  and marshal_elems :: "gtype \<Rightarrow> gval list \<Rightarrow> json list option"
  and marshal_fields :: "(string \<times> bool \<times> gtype) list \<Rightarrow> gval list \<Rightarrow> (string \<times> json) list option" where
  "marshal TString v = (case v of VString s \<Rightarrow> Some (JString s) | _ \<Rightarrow> None)"
| "marshal TInt v = (case v of VInt i \<Rightarrow> Some (JNumber (of_int i)) | _ \<Rightarrow> None)"
| "marshal TBool v = (case v of VBool b \<Rightarrow> Some (JBool b) | _ \<Rightarrow> None)"
| "marshal TFloat64 v = (case v of VFloat64 (Finite r) \<Rightarrow> Some (JNumber r) | _ \<Rightarrow> None)"
| "marshal (TPtr t) v =
     (case v of VNil \<Rightarrow> Some JNull | VPtr w \<Rightarrow> marshal t w | _ \<Rightarrow> None)"
| "marshal (TSlice t) v =
     (case v of VNil \<Rightarrow> Some JNull
      | VSlice vs \<Rightarrow> map_option JArray (marshal_elems t vs)
      | _ \<Rightarrow> None)"
| "marshal TMap v =
     (case v of VNil \<Rightarrow> Some JNull | VMap m \<Rightarrow> marshal_iface (VMap m) | _ \<Rightarrow> None)"
| "marshal (TStruct fs) v =
     (case v of VStruct vs \<Rightarrow> map_option JObject (marshal_fields fs vs) | _ \<Rightarrow> None)"
| "marshal_elems t [] = Some []"
| "marshal_elems t (v # vs) =
     (case marshal t v of
        None \<Rightarrow> None
      | Some j \<Rightarrow> map_option ((#) j) (marshal_elems t vs))"
| "marshal_fields [] vs = (if vs = [] then Some [] else None)"
| "marshal_fields (f # fs) vs =
     (case vs of
        [] \<Rightarrow> None
      | v # vs' \<Rightarrow>
          if fst (snd f) \<and> isEmptyValue v then marshal_fields fs vs'
          else (case marshal (snd (snd f)) v of
                  None \<Rightarrow> None
                | Some j \<Rightarrow> map_option ((#) (fst f, j)) (marshal_fields fs vs')))"


text \<open>
  Decoding into an \<open>interface{}\<close> gives \<open>nil\<close>, \<open>bool\<close>, \<open>float64\<close>, \<open>string\<close>,
  \<open>[]interface{}\<close> or \<open>map[string]interface{}\<close>. A Go map has no order: it is kept
  as an association list sorted by key, and \<open>store\<close> is the assignment \<open>m[k] = v\<close>.
\<close>

fun store :: "(string \<times> gval) list \<Rightarrow> string \<Rightarrow> gval \<Rightarrow> (string \<times> gval) list" where
  "store [] k v = [(k, v)]"
| "store (e # m) k v =
     (if k < fst e then (k, v) # e # m
      else if k = fst e then (k, v) # m
      else e # store m k v)"

fun unmarshal_iface :: "json \<Rightarrow> gval"
  and unmarshal_iface_list :: "json list \<Rightarrow> gval list"
  and unmarshal_iface_members :: "(string \<times> gval) list \<Rightarrow> (string \<times> json) list \<Rightarrow> (string \<times> gval) list" where
  "unmarshal_iface JNull = VNil"
| "unmarshal_iface (JBool b) = VBool b"
| "unmarshal_iface (JNumber r) = VFloat64 (Finite r)"
| "unmarshal_iface (JString s) = VString s"
| "unmarshal_iface (JArray js) = VSlice (unmarshal_iface_list js)"
| "unmarshal_iface (JObject ms) = VMap (unmarshal_iface_members [] ms)"
| "unmarshal_iface_list [] = []"
| "unmarshal_iface_list (j # js) = unmarshal_iface j # unmarshal_iface_list js"
| "unmarshal_iface_members m [] = m"
| "unmarshal_iface_members m (kj # ms) =
     unmarshal_iface_members (store m (fst kj) (unmarshal_iface (snd kj))) ms"

text \<open>
  Decoding into a value of a declared type, \<open>cur\<close> being what the target holds
  already. \<open>null\<close> sets a pointer, slice or map to nil and leaves anything else as it
  is; a JSON value of the wrong kind, or a number that is no 64-bit integer for an
  \<open>int\<close>, is an error (\<open>None\<close>; the model sees the value of a number, not the way
  it is written). The members of an object are decoded in order, each
  into the field with its key (keys are matched as the tags write them), so a repeated
  key is decoded again into the same field; unknown keys are skipped.
\<close>

definition is_int64 :: "rat \<Rightarrow> bool" where
  "is_int64 r \<longleftrightarrow> of_int \<lfloor>r\<rfloor> = r \<and> - (2 ^ 63) \<le> r \<and> r < 2 ^ 63"

fun unmarshal :: "gtype \<Rightarrow> json \<Rightarrow> gval \<Rightarrow> gval option"
  and unmarshal_elems :: "gtype \<Rightarrow> json list \<Rightarrow> gval list option"
  and unmarshal_fields ::
    "(string \<times> bool \<times> gtype) list \<Rightarrow> gval list \<Rightarrow> (string \<times> json) list \<Rightarrow> gval list option"
  and decode_seq :: "gtype \<Rightarrow> json list \<Rightarrow> gval \<Rightarrow> gval option" where
  "unmarshal TString j cur =
     (case j of JNull \<Rightarrow> Some cur | JString s \<Rightarrow> Some (VString s) | _ \<Rightarrow> None)"
| "unmarshal TInt j cur =
     (case j of JNull \<Rightarrow> Some cur
      | JNumber r \<Rightarrow> if is_int64 r then Some (VInt \<lfloor>r\<rfloor>) else None
      | _ \<Rightarrow> None)"
| "unmarshal TBool j cur =
     (case j of JNull \<Rightarrow> Some cur | JBool b \<Rightarrow> Some (VBool b) | _ \<Rightarrow> None)"
| "unmarshal TFloat64 j cur =
     (case j of JNull \<Rightarrow> Some cur | JNumber r \<Rightarrow> Some (VFloat64 (Finite r)) | _ \<Rightarrow> None)"
| "unmarshal (TPtr t) j cur =
     (if j = JNull then Some VNil
      else map_option VPtr (unmarshal t j (case cur of VPtr w \<Rightarrow> w | _ \<Rightarrow> zero t)))"
| "unmarshal (TSlice t) j cur =
     (case j of JNull \<Rightarrow> Some VNil
      | JArray js \<Rightarrow> map_option VSlice (unmarshal_elems t js)
      | _ \<Rightarrow> None)"
| "unmarshal TMap j cur =
     (case j of JNull \<Rightarrow> Some VNil
      | JObject ms \<Rightarrow>
          Some (VMap (unmarshal_iface_members (case cur of VMap m \<Rightarrow> m | _ \<Rightarrow> []) ms))
      | _ \<Rightarrow> None)"
| "unmarshal (TStruct fs) j cur =
     (case j of JNull \<Rightarrow> Some cur
      | JObject ms \<Rightarrow>
          (case cur of VStruct vs \<Rightarrow> map_option VStruct (unmarshal_fields fs vs ms)
           | _ \<Rightarrow> None)
      | _ \<Rightarrow> None)"
| "unmarshal_elems t [] = Some []"
| "unmarshal_elems t (j # js) =
     (case unmarshal t j (zero t) of
        None \<Rightarrow> None
      | Some v \<Rightarrow> map_option ((#) v) (unmarshal_elems t js))"
| "unmarshal_fields [] vs ms = (if vs = [] then Some [] else None)"
| "unmarshal_fields (f # fs) vs ms =
     (case vs of
        [] \<Rightarrow> None
      | v # vs' \<Rightarrow>
          (case decode_seq (snd (snd f)) (map snd (filter (\<lambda>m. fst m = fst f) ms)) v of
             None \<Rightarrow> None
           | Some v' \<Rightarrow> map_option ((#) v') (unmarshal_fields fs vs' ms)))"
| "decode_seq t [] cur = Some cur"
| "decode_seq t (j # js) cur =
     (case unmarshal t j cur of
        None \<Rightarrow> None
      | Some c \<Rightarrow> decode_seq t js c)"

text \<open>\<open>ToJSON\<close> and \<open>FromJSON\<close>; the latter decodes into the value \<open>v\<close> points to.\<close>

definition ToJSON :: "gtype \<Rightarrow> gval \<Rightarrow> json option" where
  "ToJSON t v = marshal t v"

definition FromJSON :: "gtype \<Rightarrow> json \<Rightarrow> gval \<Rightarrow> gval option" where
  "FromJSON t data v = unmarshal t data v"


text \<open>The struct declarations of the models, with their tags.\<close>

definition optional :: "string \<Rightarrow> gtype \<Rightarrow> string \<times> bool \<times> gtype" where
  "optional name t = (name, True, TPtr t)"

definition required :: "string \<Rightarrow> gtype \<Rightarrow> string \<times> bool \<times> gtype" where
  "required name t = (name, False, t)"

definition Customer_type :: gtype where
  "Customer_type = TStruct [required ''email'' TString]"

definition CheckoutRequest_type :: gtype where
  "CheckoutRequest_type = TStruct
     [required ''product_id'' TString,
      optional ''customer'' Customer_type,
      optional ''request_id'' TString,
      optional ''units'' TString,
      optional ''success_url'' TString,
      (''metadata'', True, TMap)]"

















text \<open>
  \<open>CheckoutRequest\<close> as a record, and its place in the universe of values: a nil
  pointer or map is \<open>None\<close>.
\<close>

record Customer =
  Email :: string

record CheckoutRequest =
  ProductID :: string
  Customer :: "Customer option"
  RequestID :: "string option"
  Units :: "string option"
  SuccessURL :: "string option"
  Metadata :: "(string \<times> gval) list option"

definition string_ptr :: "string option \<Rightarrow> gval" where
  "string_ptr p = (case p of None \<Rightarrow> VNil | Some s \<Rightarrow> VPtr (VString s))"

definition CheckoutRequest_value :: "CheckoutRequest \<Rightarrow> gval" where
  "CheckoutRequest_value r = VStruct
     [VString (ProductID r),
      (case Customer r of None \<Rightarrow> VNil | Some c \<Rightarrow> VPtr (VStruct [VString (Email c)])),
      string_ptr (RequestID r),
      string_ptr (Units r),
      string_ptr (SuccessURL r),
      (case Metadata r of None \<Rightarrow> VNil | Some m \<Rightarrow> VMap m)]"





section \<open>Properties\<close>

subsection \<open>Status classification\<close>

lemmas status_defs =
  StatusBadRequest_def StatusUnauthorized_def StatusNotFound_def
  StatusTooManyRequests_def StatusInternalServerError_def

lemmas simple_ctor_defs =
  NewBagelPayAuthenticationErrorSimple_def NewBagelPayValidationErrorSimple_def
  NewBagelPayNotFoundErrorSimple_def NewBagelPayRateLimitErrorSimple_def
  NewBagelPayServerErrorSimple_def
  NewBagelPayAuthenticationError_def NewBagelPayValidationError_def
  NewBagelPayNotFoundError_def NewBagelPayRateLimitError_def
  NewBagelPayServerError_def

lemma Itoa_400: "Itoa 400 = ''400''" and Itoa_401: "Itoa 401 = ''401''"
  and Itoa_404: "Itoa 404 = ''404''" and Itoa_500: "Itoa 500 = ''500''"
  and Itoa_1001: "Itoa 1001 = ''1001''" and Itoa_403: "Itoa 403 = ''403''"
  by (simp_all add: Itoa_def)

text \<open>
  What \<open>handleResponse\<close> returns for a status of 400 or more, once the body has been
  read: the constructor called, with the message of the decoded or synthesized payload.
\<close>

lemma handleResponse_error:
  assumes "resp_Body resp = Inr body" and "resp_StatusCode resp \<ge> 400"
  shows "handleResponse unmarshalErr result resp =
     (let s = resp_StatusCode resp;
          a = (case unmarshalErr body of None \<Rightarrow> fallbackAPIError s body | Some a \<Rightarrow> a)
      in Inl (if s = 401 then NewBagelPayAuthenticationErrorSimple (Message a) None
              else if s = 400 then NewBagelPayValidationErrorSimple (Message a) None
              else if s = 404 then NewBagelPayNotFoundErrorSimple (Message a) None
              else if s = 429 then NewBagelPayRateLimitErrorSimple (Message a) None
              else if s \<ge> 500 then NewBagelPayServerErrorSimple s (Message a) None
              else PBagelPayAPIError (NewBagelPayAPIError s (Some a) None)))"
  using assms by (simp add: handleResponse_def Let_def status_defs)

text \<open>
  C1 (as amended). For every response with status code 400 or more whose body is read
  without an I/O error, \<open>handleResponse\<close> returns an error whose dynamic type is fixed by
  the status code alone: 401 gives an authentication error, 400 a validation error, 404 a
  not-found error, 429 a rate-limit error, every status from 500 on a server error, and
  every other status the generic API error; each type arises for no other status.
\<close>

theorem handleResponse_kind_by_status:
  assumes "resp_Body resp = Inr body" and "resp_StatusCode resp \<ge> 400"
  shows "\<exists>e. handleResponse unmarshalErr result resp = Inl e
      \<and> (IsAuthenticationError (Some e) \<longleftrightarrow> resp_StatusCode resp = 401)
      \<and> (IsValidationError (Some e) \<longleftrightarrow> resp_StatusCode resp = 400)
      \<and> (IsNotFoundError (Some e) \<longleftrightarrow> resp_StatusCode resp = 404)
      \<and> (IsRateLimitError (Some e) \<longleftrightarrow> resp_StatusCode resp = 429)
      \<and> (IsServerError (Some e) \<longleftrightarrow> resp_StatusCode resp \<ge> 500)
      \<and> (IsAPIError (Some e) \<longleftrightarrow>
            resp_StatusCode resp \<notin> {400, 401, 404, 429} \<and> resp_StatusCode resp < 500)"
  unfolding handleResponse_error [OF assms]
  by (simp add: Let_def simple_ctor_defs)

theorem handleResponse_kind_by_status_witness:
  "handleResponse Map.empty (None :: (string \<Rightarrow> string + unit) option)
      \<lparr>resp_StatusCode = 404, resp_Body = Inr ''gone''\<rparr>
     = Inl (PBagelPayNotFoundError
         \<lparr>err_Message = ''HTTP 404: gone'', err_Cause = None,
          StatusCode = 404, ErrorCode = '''', APIErr = None\<rparr>)"
proof -
  let ?r = "\<lparr>resp_StatusCode = 404, resp_Body = Inr ''gone''\<rparr>"
  have b: "resp_Body ?r = Inr ''gone''" and s: "resp_StatusCode ?r \<ge> 400"
    by simp_all
  show ?thesis
    using handleResponse_kind_by_status [OF b s, of Map.empty None]
    by (simp add: handleResponse_def status_defs simple_ctor_defs api_error_fields_def
        NewBagelPayError_def fallbackAPIError_def Itoa_404
        BagelPayError.extend_def BagelPayAPIError.fields_def)
qed

text \<open>
  The claim as it is written fails where the body cannot be read: the I/O error is
  returned as a base error before the status code is looked at, so a 404 does not give a
  not-found error there.
\<close>

theorem handleResponse_unread_body_counterexample:
  "handleResponse Map.empty (None :: (string \<Rightarrow> string + unit) option)
      \<lparr>resp_StatusCode = 404, resp_Body = Inl ''unexpected EOF''\<rparr>
     = Inl (PBagelPayError
         \<lparr>err_Message = ''failed to read response body'', err_Cause = Some ''unexpected EOF''\<rparr>)
   \<and> \<not> IsNotFoundError (Some (PBagelPayError
         \<lparr>err_Message = ''failed to read response body'', err_Cause = Some ''unexpected EOF''\<rparr>))"
  by (simp add: handleResponse_def NewBagelPayError_def)

subsection \<open>The fallback payload\<close>

text \<open>
  C3. For every response with status 400 or more whose body (read in full) does not
  decode as an \<open>APIError\<close>, the synthesized payload has the HTTP status as its code and
  the message \<open>HTTP <status>: <raw body>\<close>; the error returned carries exactly that
  message, it is a server error exactly when the status is 500 or more, and where the
  generic API error is returned it holds the synthesized payload itself.
\<close>

theorem handleResponse_fallback_payload:
  assumes "resp_Body resp = Inr body" and "resp_StatusCode resp \<ge> 400"
    and "unmarshalErr body = None"
  shows "Code (fallbackAPIError (resp_StatusCode resp) body) = resp_StatusCode resp
      \<and> Message (fallbackAPIError (resp_StatusCode resp) body)
          = ''HTTP '' @ Itoa (resp_StatusCode resp) @ '': '' @ body
      \<and> (\<exists>e f. handleResponse unmarshalErr result resp = Inl e
            \<and> api_fields e = Some f
            \<and> err_Message f = ''HTTP '' @ Itoa (resp_StatusCode resp) @ '': '' @ body
            \<and> StatusCode f = resp_StatusCode resp
            \<and> (IsServerError (Some e) \<longleftrightarrow> resp_StatusCode resp \<ge> 500)
            \<and> (IsAPIError (Some e) \<longrightarrow>
                  APIErr f = Some (fallbackAPIError (resp_StatusCode resp) body)))"
  unfolding handleResponse_error [OF assms(1,2)]
  by (simp add: assms(3) Let_def simple_ctor_defs api_error_fields_def NewBagelPayError_def
      NewBagelPayAPIError_def fallbackAPIError_def status_defs
      BagelPayError.extend_def BagelPayAPIError.fields_def)

theorem handleResponse_fallback_payload_witness:
  "handleResponse Map.empty (None :: (string \<Rightarrow> string + unit) option)
      \<lparr>resp_StatusCode = 500, resp_Body = Inr ''<html>Bad Gateway</html>''\<rparr>
     = Inl (PBagelPayServerError
         \<lparr>err_Message = ''HTTP 500: <html>Bad Gateway</html>'', err_Cause = None,
          StatusCode = 500, ErrorCode = '''', APIErr = None\<rparr>)
   \<and> fallbackAPIError 500 ''<html>Bad Gateway</html>''
     = \<lparr>Code = 500, Message = ''HTTP 500: <html>Bad Gateway</html>'', Details = ''''\<rparr>"
proof -
  let ?r = "\<lparr>resp_StatusCode = 500, resp_Body = Inr ''<html>Bad Gateway</html>''\<rparr>"
  have b: "resp_Body ?r = Inr ''<html>Bad Gateway</html>''"
    and s: "resp_StatusCode ?r \<ge> 400"
    and u: "(Map.empty :: string \<Rightarrow> APIError option) ''<html>Bad Gateway</html>'' = None"
    by simp_all
  show ?thesis
    using handleResponse_fallback_payload [OF b s u, of None]
    by (simp add: handleResponse_def status_defs simple_ctor_defs api_error_fields_def
        NewBagelPayError_def fallbackAPIError_def Itoa_500
        BagelPayError.extend_def BagelPayAPIError.fields_def)
qed

subsection \<open>Type-test predicates\<close>

text \<open>
  On errors built by the constructors of the package, each of the five specialised
  predicates holds for its own type and for no other.
\<close>

lemma specialised_predicates_exclusive:
  "IsAuthenticationError (Some e) \<Longrightarrow>
     \<not> IsValidationError (Some e) \<and> \<not> IsNotFoundError (Some e) \<and> \<not> IsRateLimitError (Some e)
     \<and> \<not> IsServerError (Some e) \<and> \<not> IsAPIError (Some e)"
  "IsValidationError (Some e) \<Longrightarrow>
     \<not> IsNotFoundError (Some e) \<and> \<not> IsRateLimitError (Some e)
     \<and> \<not> IsServerError (Some e) \<and> \<not> IsAPIError (Some e)"
  "IsNotFoundError (Some e) \<Longrightarrow>
     \<not> IsRateLimitError (Some e) \<and> \<not> IsServerError (Some e) \<and> \<not> IsAPIError (Some e)"
  "IsRateLimitError (Some e) \<Longrightarrow> \<not> IsServerError (Some e) \<and> \<not> IsAPIError (Some e)"
  "IsServerError (Some e) \<Longrightarrow> \<not> IsAPIError (Some e)"
  by (cases e; simp)+

text \<open>
  C5. \<open>IsAPIError\<close> is documented as holding for any API error, yet on the
  authentication error that a 401 response produces it returns false (as it does on the
  four other specialised types): the type assertion asks for \<open>*BagelPayAPIError\<close> itself.
  The specialised predicate does hold there.
\<close>

theorem IsAPIError_false_on_authentication_error:
  \<open>handleResponse
      [''{"code":401,"message":"invalid api key"}''
         \<mapsto> \<lparr>Code = 401, Message = ''invalid api key'', Details = ''''\<rparr>]
      (None :: (string \<Rightarrow> string + unit) option)
      \<lparr>resp_StatusCode = 401, resp_Body = Inr ''{"code":401,"message":"invalid api key"}''\<rparr>
     = Inl (PBagelPayAuthenticationError
         \<lparr>err_Message = ''invalid api key'', err_Cause = None,
          StatusCode = 401, ErrorCode = '''', APIErr = None\<rparr>)
   \<and> IsAuthenticationError (Some (PBagelPayAuthenticationError
         \<lparr>err_Message = ''invalid api key'', err_Cause = None,
          StatusCode = 401, ErrorCode = '''', APIErr = None\<rparr>))
   \<and> \<not> IsAPIError (Some (PBagelPayAuthenticationError
         \<lparr>err_Message = ''invalid api key'', err_Cause = None,
          StatusCode = 401, ErrorCode = '''', APIErr = None\<rparr>))\<close>
  by (simp add: handleResponse_def status_defs simple_ctor_defs api_error_fields_def
      NewBagelPayError_def BagelPayError.extend_def BagelPayAPIError.fields_def)

subsection \<open>Fields carried by a classified error\<close>

text \<open>
  For the four statuses with a type of their own and for every status from 500 on, the
  error returned has an empty error code and no payload, whatever the body decoded to.
\<close>

lemma handleResponse_specialised_fields:
  assumes "resp_Body resp = Inr body"
    and "resp_StatusCode resp \<in> {400, 401, 404, 429} \<or> resp_StatusCode resp \<ge> 500"
  shows "\<exists>e f. handleResponse unmarshalErr result resp = Inl e \<and> api_fields e = Some f
      \<and> StatusCode f = resp_StatusCode resp \<and> ErrorCode f = '''' \<and> APIErr f = None"
proof -
  from assms(2) have ge: "resp_StatusCode resp \<ge> 400" by auto
  show ?thesis
    unfolding handleResponse_error [OF assms(1) ge] using assms(2)
    by (auto simp add: Let_def simple_ctor_defs api_error_fields_def NewBagelPayError_def
        status_defs BagelPayError.extend_def BagelPayAPIError.fields_def)
qed

text \<open>The generic API error does carry the status, the stringified code and the payload.\<close>

lemma handleResponse_generic_fields:
  assumes "resp_Body resp = Inr body" and "resp_StatusCode resp \<ge> 400"
    and "resp_StatusCode resp \<notin> {400, 401, 404, 429}" and "resp_StatusCode resp < 500"
    and "unmarshalErr body = Some a"
  shows "handleResponse unmarshalErr result resp =
     Inl (PBagelPayAPIError
       \<lparr>err_Message = Message a, err_Cause = None, StatusCode = resp_StatusCode resp,
        ErrorCode = (if Code a \<noteq> 0 then Itoa (Code a) else ''''), APIErr = Some a\<rparr>)"
  unfolding handleResponse_error [OF assms(1,2)] using assms(3-)
  by (simp add: Let_def NewBagelPayAPIError_def NewBagelPayError_def
      BagelPayError.extend_def BagelPayAPIError.fields_def)

text \<open>
  C6. A 400 response whose body decodes to a payload with code 1001 gives a validation
  error with an empty error code and no payload: the code 1001 and the details are lost.
  The same body under status 403 gives a generic API error with error code \<open>1001\<close> and
  the payload.
\<close>

theorem handleResponse_validation_error_drops_payload:
  \<open>handleResponse
      [''{"code":1001,"message":"invalid price","details":"price must be positive"}''
         \<mapsto> \<lparr>Code = 1001, Message = ''invalid price'', Details = ''price must be positive''\<rparr>]
      (None :: (string \<Rightarrow> string + unit) option)
      \<lparr>resp_StatusCode = 400,
       resp_Body = Inr ''{"code":1001,"message":"invalid price","details":"price must be positive"}''\<rparr>
     = Inl (PBagelPayValidationError
         \<lparr>err_Message = ''invalid price'', err_Cause = None,
          StatusCode = 400, ErrorCode = '''', APIErr = None\<rparr>)
   \<and> handleResponse
      [''{"code":1001,"message":"invalid price","details":"price must be positive"}''
         \<mapsto> \<lparr>Code = 1001, Message = ''invalid price'', Details = ''price must be positive''\<rparr>]
      (None :: (string \<Rightarrow> string + unit) option)
      \<lparr>resp_StatusCode = 403,
       resp_Body = Inr ''{"code":1001,"message":"invalid price","details":"price must be positive"}''\<rparr>
     = Inl (PBagelPayAPIError
         \<lparr>err_Message = ''invalid price'', err_Cause = None,
          StatusCode = 403, ErrorCode = ''1001'',
          APIErr = Some \<lparr>Code = 1001, Message = ''invalid price'',
                          Details = ''price must be positive''\<rparr>\<rparr>)\<close>
  by (simp add: handleResponse_def status_defs simple_ctor_defs api_error_fields_def
      NewBagelPayError_def NewBagelPayAPIError_def Itoa_1001
      BagelPayError.extend_def BagelPayAPIError.fields_def)

subsection \<open>Client construction\<close>

text \<open>
  C8 (as amended). \<open>NewClient\<close> stores a non-empty explicit base URL whatever the mode
  flag says, and otherwise the test or the live URL as the flag selects; one trailing
  slash of the chosen URL is stripped. When no custom HTTP client is supplied, the client
  it creates has a timeout of 30 seconds if none is configured, and the configured one
  otherwise; a custom HTTP client is stored as it is, with its own timeout.
\<close>

theorem NewClient_resolution:
  "(BaseURL config = u @ ''/'' \<longrightarrow> baseURL (NewClient config) = u)
 \<and> (BaseURL config \<noteq> '''' \<and> last (BaseURL config) \<noteq> CHR ''/'' \<longrightarrow>
        baseURL (NewClient config) = BaseURL config)
 \<and> (BaseURL config = '''' \<and> TestMode config \<longrightarrow>
        baseURL (NewClient config) = ''https://test.bagelpay.io'')
 \<and> (BaseURL config = '''' \<and> \<not> TestMode config \<longrightarrow>
        baseURL (NewClient config) = ''https://live.bagelpay.io'')
 \<and> (HTTPClient config = None \<and> Timeout config = 0 \<longrightarrow>
        client_Timeout (httpClient (NewClient config)) = 30 * Second)
 \<and> (HTTPClient config = None \<and> Timeout config \<noteq> 0 \<longrightarrow>
        client_Timeout (httpClient (NewClient config)) = Timeout config)
 \<and> (HTTPClient config = Some h \<longrightarrow> httpClient (NewClient config) = h)"
proof -
  have "BaseURL config \<noteq> '''' \<and> last (BaseURL config) \<noteq> CHR ''/'' \<longrightarrow>
      \<not> HasSuffix (BaseURL config) ''/''"
    by (cases "BaseURL config" rule: rev_cases) (simp_all add: HasSuffix_def)
  then show ?thesis
    by (auto simp add: NewClient_def Let_def TrimSuffix_def HasSuffix_def)
qed

theorem NewClient_resolution_witness:
  "NewClient \<lparr>APIKey = ''k'', TestMode = True, BaseURL = ''https://api.example.com/'',
              Timeout = 0, HTTPClient = None\<rparr>
     = \<lparr>baseURL = ''https://api.example.com'', apiKey = ''k'',
        httpClient = \<lparr>client_Timeout = 30000000000\<rparr>\<rparr>
   \<and> NewClient \<lparr>APIKey = ''k'', TestMode = True, BaseURL = '''',
              Timeout = 5000000000, HTTPClient = None\<rparr>
     = \<lparr>baseURL = ''https://test.bagelpay.io'', apiKey = ''k'',
        httpClient = \<lparr>client_Timeout = 5000000000\<rparr>\<rparr>
   \<and> NewClient \<lparr>APIKey = ''k'', TestMode = False, BaseURL = '''',
              Timeout = 0, HTTPClient = Some \<lparr>client_Timeout = 7\<rparr>\<rparr>
     = \<lparr>baseURL = ''https://live.bagelpay.io'', apiKey = ''k'',
        httpClient = \<lparr>client_Timeout = 7\<rparr>\<rparr>
   \<and> NewClient \<lparr>APIKey = ''k'', TestMode = False, BaseURL = ''http://localhost:8080'',
              Timeout = 0, HTTPClient = None\<rparr>
     = \<lparr>baseURL = ''http://localhost:8080'', apiKey = ''k'',
        httpClient = \<lparr>client_Timeout = 30000000000\<rparr>\<rparr>"
  using
    NewClient_resolution [of "\<lparr>APIKey = ''k'', TestMode = True,
       BaseURL = ''https://api.example.com/'', Timeout = 0, HTTPClient = None\<rparr>"
       "''https://api.example.com''" "\<lparr>client_Timeout = 7\<rparr>"]
    NewClient_resolution [of "\<lparr>APIKey = ''k'', TestMode = True, BaseURL = '''',
       Timeout = 5000000000, HTTPClient = None\<rparr>" "''''" "\<lparr>client_Timeout = 7\<rparr>"]
    NewClient_resolution [of "\<lparr>APIKey = ''k'', TestMode = False, BaseURL = '''',
       Timeout = 0, HTTPClient = Some \<lparr>client_Timeout = 7\<rparr>\<rparr>" "''''"
       "\<lparr>client_Timeout = 7\<rparr>"]
    NewClient_resolution [of "\<lparr>APIKey = ''k'', TestMode = False,
       BaseURL = ''http://localhost:8080'', Timeout = 0, HTTPClient = None\<rparr>" "''''"
       "\<lparr>client_Timeout = 7\<rparr>"]
  by (simp add: NewClient_def Let_def TrimSuffix_def HasSuffix_def Second_def)

text \<open>
  The claim as it is written fails where a custom HTTP client is supplied: with no
  timeout configured anywhere, the stored client keeps its own timeout (here none at
  all) and the default of 30 seconds is not applied.
\<close>

theorem NewClient_custom_client_counterexample:
  "Timeout \<lparr>APIKey = ''k'', TestMode = True, BaseURL = '''', Timeout = 0,
             HTTPClient = Some \<lparr>client_Timeout = 0\<rparr>\<rparr> = 0
   \<and> client_Timeout (httpClient (NewClient
         \<lparr>APIKey = ''k'', TestMode = True, BaseURL = '''', Timeout = 0,
          HTTPClient = Some \<lparr>client_Timeout = 0\<rparr>\<rparr>)) = 0
   \<and> 30 * Second \<noteq> 0"
  by (simp add: NewClient_def Let_def Second_def)

subsection \<open>Webhook signature verification\<close>

text \<open>The constant-time comparison computes equality of the two byte strings.\<close>

lemma xor_zero_iff: "(a :: 8 word) XOR b = 0 \<longleftrightarrow> a = b"
  by (auto simp add: bit_eq_iff bit_xor_iff)

lemma xor_accumulate_zero:
  "length x = length y \<Longrightarrow> xor_accumulate v x y = 0 \<longleftrightarrow> v = 0 \<and> x = y"
proof (induction v x y rule: xor_accumulate.induct)
  case (1 v a x b y)
  then show ?case by (auto simp add: or_eq_0_iff xor_zero_iff)
qed simp_all

lemma ConstantTimeByteEq_zero: "ConstantTimeByteEq x 0 = 1 \<longleftrightarrow> x = 0"
proof (cases "x = 0")
  case True
  then show ?thesis by (simp add: ConstantTimeByteEq_def)
next
  case False
  have lt: "unat x < 256" using unsigned_less[of x, where ?'a=nat] by simp
  have pos: "unat x > 0" using False by (simp add: unat_gt_0)
  have c: "unat (ucast x :: 32 word) = unat x"
    by (simp add: unsigned_ucast_eq take_bit_nat_eq_self_iff order_less_trans[OF unsigned_less])
  have "(1 :: 32 word) \<le> ucast x"
    using pos c by (simp add: word_le_nat_alt)
  then have u: "unat ((ucast x :: 32 word) - 1) = unat x - 1"
    using c by (simp add: unat_sub)
  have "unat (drop_bit 31 ((ucast x :: 32 word) - 1)) = drop_bit 31 (unat x - 1)"
    by (simp only: unat_drop_bit_eq u)
  also have "\<dots> = (unat x - 1) div 2 ^ 31"
    by (rule drop_bit_eq_div)
  also have "\<dots> = 0" using lt by simp
  finally have "drop_bit 31 ((ucast x :: 32 word) - 1) = 0"
    by (simp add: unat_0_iff[symmetric])
  then show ?thesis using False by (simp add: ConstantTimeByteEq_def)
qed

lemma hmac_Equal_iff: "hmac_Equal a b \<longleftrightarrow> a = b"
  using xor_accumulate_zero[of a b 0]
  by (auto simp add: hmac_Equal_def ConstantTimeCompare_def ConstantTimeByteEq_zero)

text \<open>Hex encoding is injective: a digest is determined by its encoding.\<close>

lemma and_15: "(v :: 8 word) AND 15 = take_bit 4 v"
  by (simp add: take_bit_eq_mask mask_eq_exp_minus_1)

lemma nibbles_determine_byte:
  "drop_bit 4 v = drop_bit 4 w \<Longrightarrow> v AND 15 = w AND 15 \<Longrightarrow> v = (w :: 8 word)"
  by (metis and_15 bits_ident)

lemma hi_nibble_lt: "unat (drop_bit 4 (v :: 8 word)) < 16"
proof -
  have "unat v < 256" using unsigned_less[of v, where ?'a=nat] by simp
  moreover have "unat (drop_bit 4 v) = drop_bit 4 (unat v)"
    by (rule unat_drop_bit_eq)
  moreover have "drop_bit 4 (unat v) = unat v div 2 ^ 4"
    by (rule drop_bit_eq_div)
  ultimately show ?thesis by simp
qed

lemma lo_nibble_lt: "unat ((v :: 8 word) AND 15) < 16"
proof -
  have "unat (take_bit 4 v) = take_bit 4 (unat v)"
    by (rule unsigned_take_bit_eq)
  moreover have "take_bit 4 (unat v) = unat v mod 2 ^ 4"
    by (rule take_bit_eq_mod)
  ultimately show ?thesis by (simp add: and_15)
qed

lemma hextable_inj: "i < 16 \<Longrightarrow> j < 16 \<Longrightarrow> hextable ! i = hextable ! j \<longleftrightarrow> i = j"
  by (rule nth_eq_iff_index_eq) (simp_all add: hextable_def)

lemma EncodeToString_inj: "EncodeToString a = EncodeToString b \<longleftrightarrow> a = b"
proof (induction a arbitrary: b)
  case Nil
  then show ?case by (cases b) simp_all
next
  case (Cons v a)
  show ?case
  proof (cases b)
    case Nil
    then show ?thesis by simp
  next
    case (Cons w b')
    have "hextable ! unat (drop_bit 4 v) = hextable ! unat (drop_bit 4 w) \<longleftrightarrow> drop_bit 4 v = drop_bit 4 w"
      by (metis hextable_inj hi_nibble_lt word_unat_eq_iff)
    moreover have "hextable ! unat (v AND 15) = hextable ! unat (w AND 15) \<longleftrightarrow> v AND 15 = w AND 15"
      by (metis hextable_inj lo_nibble_lt word_unat_eq_iff)
    ultimately show ?thesis
      using Cons Cons.IH[of b'] nibbles_determine_byte[of v w] by auto
  qed
qed

text \<open>
  The encoding at two bytes: \<open>0x1f\<close> and \<open>0xa0\<close> are written \<open>1fa0\<close>, in lower case
  and with the high nibble first.
\<close>

lemma EncodeToString_example: "EncodeToString [0x1f, 0xa0] = [49, 102, 97, 48]"
  by (simp add: hextable_def)

text \<open>
  \<open>verifyWebhookSignature\<close> returns true exactly when the signature is the hex
  encoding of the HMAC, keyed by the secret, of the timestamp, a full stop and the
  payload; so the recomputed signature is accepted and every other signature, in
  particular one with a byte altered, is rejected. A signature that is valid for one
  timestamp and payload is accepted for another timestamp and payload exactly when the two
  HMAC values coincide. Whether HMAC-SHA256 can coincide on two messages that differ in one
  byte is a question about SHA-256 that this development does not settle, in either
  direction: the part of C2 on an altered body or timestamp stays open.
\<close>

lemma verifyWebhookSignature_accepts_iff:
  "(verifyWebhookSignature hmac_sha256 payload timestamp signature secret \<longleftrightarrow>
      signature = EncodeToString (hmac_sha256 secret (timestamp @ [46] @ payload)))
   \<and> verifyWebhookSignature hmac_sha256 payload timestamp
        (EncodeToString (hmac_sha256 secret (timestamp @ [46] @ payload))) secret
   \<and> (verifyWebhookSignature hmac_sha256 payload' timestamp'
        (EncodeToString (hmac_sha256 secret (timestamp @ [46] @ payload))) secret \<longleftrightarrow>
      hmac_sha256 secret (timestamp' @ [46] @ payload')
        = hmac_sha256 secret (timestamp @ [46] @ payload))"
  by (auto simp add: verifyWebhookSignature_def Let_def hmac_Equal_iff EncodeToString_inj)

lemma verifyWebhookSignature_rejects_altered_signature:
  "i < length signature \<Longrightarrow> b \<noteq> signature ! i \<Longrightarrow>
   verifyWebhookSignature hmac_sha256 payload timestamp signature secret \<Longrightarrow>
   \<not> verifyWebhookSignature hmac_sha256 payload timestamp (signature[i := b]) secret"
proof -
  assume i: "i < length signature" and b: "b \<noteq> signature ! i"
    and v: "verifyWebhookSignature hmac_sha256 payload timestamp signature secret"
  from i b have "signature[i := b] ! i \<noteq> signature ! i" by simp
  then have "signature[i := b] \<noteq> signature" by metis
  with v show ?thesis
    by (simp add: verifyWebhookSignature_def Let_def hmac_Equal_iff)
qed

subsection \<open>Query parameters\<close>

text \<open>Adding a value touches one key; a parameter that is absent or empty adds nothing.\<close>

lemma values_of_Add:
  "values_of (Add v key x) k = (if k = key then values_of v key @ [x] else values_of v k)"
  by (induction v key x rule: Add.induct) (auto simp add: values_of_def)

lemma keys_Add: "fst ` set (Add v key x) = insert key (fst ` set v)"
  by (induction v key x rule: Add.induct) auto

lemma values_of_add_param:
  "params k = None \<or> params k = Some '''' \<Longrightarrow>
     values_of (add_param params q key) k = values_of q k"
  by (auto simp add: add_param_def values_of_Add split: option.splits)

lemma keys_add_param:
  "params k = None \<or> params k = Some '''' \<Longrightarrow> k \<notin> fst ` set q \<Longrightarrow>
     k \<notin> fst ` set (add_param params q key)"
  by (auto simp add: add_param_def keys_Add split: option.splits)

lemma values_of_makeRequest_query:
  "params k = None \<or> params k = Some '''' \<Longrightarrow>
     values_of (makeRequest_query params q keys) k = values_of q k"
  unfolding makeRequest_query_def
  by (induction keys arbitrary: q) (simp_all add: values_of_add_param)

lemma keys_makeRequest_query:
  "params k = None \<or> params k = Some '''' \<Longrightarrow> k \<notin> fst ` set q \<Longrightarrow>
     k \<notin> fst ` set (makeRequest_query params q keys)"
  unfolding makeRequest_query_def
  by (induction keys arbitrary: q) (simp_all add: keys_add_param)

lemma keys_encode_pairs: "fst ` set (encode_pairs v) \<subseteq> fst ` set v"
  by (force simp add: encode_pairs_def)

lemma makeRequest_u_query:
  assumes "makeRequest_u lib c endpoint (Some params) keys = Inr u"
  shows "\<exists>u0. url_Parse (invalid lib) (baseURL c @ endpoint) = Inr u0
     \<and> u = u0\<lparr>RawQuery := Encode (makeRequest_query params (ParseQuery (RawQuery u0)) keys)\<rparr>"
  using assms by (auto simp add: makeRequest_u_def split: sum.splits)

lemma makeRequest_url_Inr:
  "makeRequest_url lib c endpoint params keys = Inr s \<longleftrightarrow>
     (\<exists>u. makeRequest_u lib c endpoint params keys = Inr u \<and> s = URL_String lib u)"
  by (auto simp add: makeRequest_url_def split: sum.splits)

lemma list_params_empty:
  "pageNum \<le> 0 \<Longrightarrow> list_params pageNum pageSize ''pageNum'' = None"
  "pageSize \<le> 0 \<Longrightarrow> list_params pageNum pageSize ''pageSize'' = None"
  by (simp_all add: list_params_def Let_def)








lemma ParseQuery_empty: "ParseQuery '''' = []"
  by (simp add: ParseQuery_def parse_pair_def)

lemma url_Parse_plain:
  assumes "url_Parse refuse raw = Inr u" and "CHR ''?'' \<notin> set raw" and "CHR ''#'' \<notin> set raw"
  shows "u = \<lparr>Prefix = raw, ForceQuery = False, RawQuery = '''', RawFragment = ''''\<rparr>"
proof -
  from assms(2) have "\<not> HasSuffix raw ''?''"
    by (cases raw rule: rev_cases) (auto simp add: HasSuffix_def)
  with assms show ?thesis
    by (auto simp add: url_Parse_def Cut_def split: option.splits)
qed

lemma list_url_shape:
  assumes "list_url \<in> {ListProducts_url, ListTransactions_url, ListSubscriptions_url,
                  ListCustomers_url}"
  shows "\<exists>ep. CHR ''?'' \<notin> set ep \<and> CHR ''#'' \<notin> set ep
     \<and> (\<forall>lib c pageNum pageSize keys. list_url lib c pageNum pageSize keys
           = makeRequest_url lib c ep (Some (list_params pageNum pageSize)) keys)"
proof -
  from assms consider "list_url = ListProducts_url" | "list_url = ListTransactions_url"
    | "list_url = ListSubscriptions_url" | "list_url = ListCustomers_url" by auto
  then show ?thesis
  proof cases
    case 1 then show ?thesis
      by (intro exI[of _ "''/api/products/list''"]) (simp add: ListProducts_url_def)
  next
    case 2 then show ?thesis
      by (intro exI[of _ "''/api/transactions/list''"]) (simp add: ListTransactions_url_def)
  next
    case 3 then show ?thesis
      by (intro exI[of _ "''/api/subscriptions/list''"]) (simp add: ListSubscriptions_url_def)
  next
    case 4 then show ?thesis
      by (intro exI[of _ "''/api/customers/list''"]) (simp add: ListCustomers_url_def)
  qed
qed

text \<open>
  C4 (as amended). A parameter of the mapping passed to \<open>makeRequest\<close> whose value is
  the empty string is not added to the query: in the URL that is requested, the values of
  its key are those that the text of base URL and endpoint carried already, and where
  that text carried none, the key is not among the pairs that \<open>Encode\<close> writes. For each
  of the four list operations, on a base URL without \<open>?\<close> and \<open>#\<close>, the URL requested
  is the base URL and the endpoint followed by the encoded parameters, and \<open>pageNum\<close> is
  not among the pairs written when the argument is not positive, and neither is
  \<open>pageSize\<close>.
\<close>

theorem empty_parameters_omitted:
  "(makeRequest_url lib c endpoint (Some params) keys = Inr s \<and> params k = Some ''''
    \<longrightarrow> (\<exists>u0. url_Parse (invalid lib) (baseURL c @ endpoint) = Inr u0
          \<and> s = URL_String lib (u0\<lparr>RawQuery :=
                Encode (makeRequest_query params (ParseQuery (RawQuery u0)) keys)\<rparr>)
          \<and> values_of (makeRequest_query params (ParseQuery (RawQuery u0)) keys) k
              = values_of (ParseQuery (RawQuery u0)) k
          \<and> (k \<notin> fst ` set (ParseQuery (RawQuery u0)) \<longrightarrow>
                k \<notin> fst ` set (encode_pairs
                  (makeRequest_query params (ParseQuery (RawQuery u0)) keys)))))
 \<and> (list_url \<in> {ListProducts_url, ListTransactions_url, ListSubscriptions_url,
                  ListCustomers_url}
      \<and> list_url lib c pageNum pageSize keys = Inr s'
      \<and> CHR ''?'' \<notin> set (baseURL c) \<and> CHR ''#'' \<notin> set (baseURL c)
    \<longrightarrow> (\<exists>ep. s' = URL_String lib
              \<lparr>Prefix = baseURL c @ ep, ForceQuery = False,
               RawQuery = Encode (makeRequest_query (list_params pageNum pageSize) [] keys),
               RawFragment = ''''\<rparr>)
      \<and> (pageNum \<le> 0 \<longrightarrow> ''pageNum'' \<notin> fst ` set (encode_pairs
            (makeRequest_query (list_params pageNum pageSize) [] keys)))
      \<and> (pageSize \<le> 0 \<longrightarrow> ''pageSize'' \<notin> fst ` set (encode_pairs
            (makeRequest_query (list_params pageNum pageSize) [] keys))))"
proof (intro conjI impI)
  assume a: "makeRequest_url lib c endpoint (Some params) keys = Inr s \<and> params k = Some ''''"
  then obtain u where u: "makeRequest_u lib c endpoint (Some params) keys = Inr u"
    and s: "s = URL_String lib u"
    by (auto simp add: makeRequest_url_Inr)
  from makeRequest_u_query [OF u] obtain u0
    where u0: "url_Parse (invalid lib) (baseURL c @ endpoint) = Inr u0"
      and u': "u = u0\<lparr>RawQuery :=
                  Encode (makeRequest_query params (ParseQuery (RawQuery u0)) keys)\<rparr>"
    by blast
  have v: "values_of (makeRequest_query params (ParseQuery (RawQuery u0)) keys) k
          = values_of (ParseQuery (RawQuery u0)) k"
    using a by (simp add: values_of_makeRequest_query)
  have n: "k \<notin> fst ` set (ParseQuery (RawQuery u0)) \<longrightarrow>
        k \<notin> fst ` set (encode_pairs
          (makeRequest_query params (ParseQuery (RawQuery u0)) keys))"
  proof
    assume "k \<notin> fst ` set (ParseQuery (RawQuery u0))"
    with a have "k \<notin> fst ` set (makeRequest_query params (ParseQuery (RawQuery u0)) keys)"
      by (simp add: keys_makeRequest_query)
    then show "k \<notin> fst ` set (encode_pairs
          (makeRequest_query params (ParseQuery (RawQuery u0)) keys))"
      using keys_encode_pairs by blast
  qed
  from u0 s u' v n show "\<exists>u0. url_Parse (invalid lib) (baseURL c @ endpoint) = Inr u0
          \<and> s = URL_String lib (u0\<lparr>RawQuery :=
                Encode (makeRequest_query params (ParseQuery (RawQuery u0)) keys)\<rparr>)
          \<and> values_of (makeRequest_query params (ParseQuery (RawQuery u0)) keys) k
              = values_of (ParseQuery (RawQuery u0)) k
          \<and> (k \<notin> fst ` set (ParseQuery (RawQuery u0)) \<longrightarrow>
                k \<notin> fst ` set (encode_pairs
                  (makeRequest_query params (ParseQuery (RawQuery u0)) keys)))"
    by blast
next
  assume a: "list_url \<in> {ListProducts_url, ListTransactions_url, ListSubscriptions_url,
                  ListCustomers_url}
      \<and> list_url lib c pageNum pageSize keys = Inr s'
      \<and> CHR ''?'' \<notin> set (baseURL c) \<and> CHR ''#'' \<notin> set (baseURL c)"
  then obtain ep where ep: "CHR ''?'' \<notin> set ep" "CHR ''#'' \<notin> set ep"
    and m: "makeRequest_url lib c ep (Some (list_params pageNum pageSize)) keys = Inr s'"
    using list_url_shape [of list_url] by metis
  from m obtain u
    where u: "makeRequest_u lib c ep (Some (list_params pageNum pageSize)) keys = Inr u"
      and s: "s' = URL_String lib u"
    by (auto simp add: makeRequest_url_Inr)
  from makeRequest_u_query [OF u] obtain u0
    where u0: "url_Parse (invalid lib) (baseURL c @ ep) = Inr u0"
      and u': "u = u0\<lparr>RawQuery := Encode (makeRequest_query (list_params pageNum pageSize)
                  (ParseQuery (RawQuery u0)) keys)\<rparr>"
    by blast
  from a ep have "CHR ''?'' \<notin> set (baseURL c @ ep)" and "CHR ''#'' \<notin> set (baseURL c @ ep)"
    by simp_all
  from url_Parse_plain [OF u0 this]
  have "u0 = \<lparr>Prefix = baseURL c @ ep, ForceQuery = False, RawQuery = '''',
              RawFragment = ''''\<rparr>" .
  with u' s have "s' = URL_String lib
              \<lparr>Prefix = baseURL c @ ep, ForceQuery = False,
               RawQuery = Encode (makeRequest_query (list_params pageNum pageSize) [] keys),
               RawFragment = ''''\<rparr>"
    by (simp add: ParseQuery_empty)
  then show "\<exists>ep. s' = URL_String lib
              \<lparr>Prefix = baseURL c @ ep, ForceQuery = False,
               RawQuery = Encode (makeRequest_query (list_params pageNum pageSize) [] keys),
               RawFragment = ''''\<rparr>"
    by blast
  {
    fix k assume "list_params pageNum pageSize k = None"
    then have "k \<notin> fst ` set (makeRequest_query (list_params pageNum pageSize) [] keys)"
      by (simp add: keys_makeRequest_query)
    then have "k \<notin> fst ` set (encode_pairs
        (makeRequest_query (list_params pageNum pageSize) [] keys))"
      using keys_encode_pairs by blast
  }
  note absent = this
  show "pageNum \<le> 0 \<Longrightarrow> ''pageNum'' \<notin> fst ` set (encode_pairs
            (makeRequest_query (list_params pageNum pageSize) [] keys))"
    by (rule absent) (simp add: list_params_empty)
  show "pageSize \<le> 0 \<Longrightarrow> ''pageSize'' \<notin> fst ` set (encode_pairs
            (makeRequest_query (list_params pageNum pageSize) [] keys))"
    by (rule absent) (simp add: list_params_empty)
qed

theorem empty_parameters_omitted_witness:
  "makeRequest_url \<lparr>invalid = Map.empty, write_head = id, write_fragment = id\<rparr>
      \<lparr>baseURL = ''https://test.bagelpay.io'', apiKey = ''k'',
       httpClient = \<lparr>client_Timeout = 0\<rparr>\<rparr> ''/api/customers/list''
      (Some [''email'' \<mapsto> '''', ''pageNum'' \<mapsto> ''2'', ''q'' \<mapsto> ''a b&c''])
      [''q'', ''email'', ''pageNum'']
     = Inr ''https://test.bagelpay.io/api/customers/list?pageNum=2&q=a+b%26c''
   \<and> ''email'' \<notin> fst ` set (encode_pairs (makeRequest_query
         [''email'' \<mapsto> '''', ''pageNum'' \<mapsto> ''2'', ''q'' \<mapsto> ''a b&c''] []
         [''q'', ''email'', ''pageNum'']))
   \<and> ListProducts_url \<lparr>invalid = Map.empty, write_head = id, write_fragment = id\<rparr>
      \<lparr>baseURL = ''https://test.bagelpay.io'', apiKey = ''k'',
       httpClient = \<lparr>client_Timeout = 0\<rparr>\<rparr> 0 20 [''pageSize'', ''pageNum'']
     = Inr ''https://test.bagelpay.io/api/products/list?pageSize=20''
   \<and> ''pageNum'' \<notin> fst ` set (encode_pairs (makeRequest_query (list_params 0 20) []
         [''pageSize'', ''pageNum'']))"
proof -
  let ?lib = "\<lparr>invalid = Map.empty, write_head = id, write_fragment = id\<rparr>"
  let ?c = "\<lparr>baseURL = ''https://test.bagelpay.io'', apiKey = ''k'',
       httpClient = \<lparr>client_Timeout = 0\<rparr>\<rparr>"
  let ?m = "[''email'' \<mapsto> '''', ''pageNum'' \<mapsto> ''2'', ''q'' \<mapsto> ''a b&c'']"
  have m: "makeRequest_url ?lib ?c ''/api/customers/list'' (Some ?m)
      [''q'', ''email'', ''pageNum'']
     = Inr ''https://test.bagelpay.io/api/customers/list?pageNum=2&q=a+b%26c''"
    by code_simp
  have p: "url_Parse Map.empty (baseURL ?c @ ''/api/customers/list'')
     = Inr \<lparr>Prefix = ''https://test.bagelpay.io/api/customers/list'', ForceQuery = False,
            RawQuery = '''', RawFragment = ''''\<rparr>"
    by code_simp
  have l: "ListProducts_url ?lib ?c 0 20 [''pageSize'', ''pageNum'']
     = Inr ''https://test.bagelpay.io/api/products/list?pageSize=20''"
    by code_simp
  show ?thesis
    using empty_parameters_omitted [where lib = ?lib and c = ?c
        and endpoint = "''/api/customers/list''" and params = ?m
        and keys = "[''q'', ''email'', ''pageNum'']" and k = "''email''"
        and s = "''https://test.bagelpay.io/api/customers/list?pageNum=2&q=a+b%26c''"]
      empty_parameters_omitted [where list_url = ListProducts_url and lib = ?lib
        and c = ?c and pageNum = 0 and pageSize = 20
        and keys = "[''pageSize'', ''pageNum'']"
        and s' = "''https://test.bagelpay.io/api/products/list?pageSize=20''"]
      m p l
    by (auto simp add: ParseQuery_empty)
qed

text \<open>
  The claim as it is written fails where the base URL carries a query of its own: the
  endpoint is appended to that query, \<open>u.Query()\<close> reads its parameters, and they are
  written back. With \<open>pageNum=7\<close> in the base URL, \<open>ListProducts\<close> with \<open>pageNum\<close> 0
  requests a URL with \<open>pageNum=7\<close>, and so does \<open>makeRequest\<close> with an empty
  \<open>pageNum\<close> in its mapping.
\<close>

theorem query_in_base_URL_counterexample:
  "ListProducts_url \<lparr>invalid = Map.empty, write_head = id, write_fragment = id\<rparr>
      (NewClient \<lparr>APIKey = ''k'', TestMode = True, BaseURL = ''https://x.test/v1?pageNum=7&x='',
                 Timeout = 0, HTTPClient = None\<rparr>) 0 5 [''pageSize'', ''pageNum'']
     = Inr ''https://x.test/v1?pageNum=7&pageSize=5&x=%2Fapi%2Fproducts%2Flist''
   \<and> makeRequest_url \<lparr>invalid = Map.empty, write_head = id, write_fragment = id\<rparr>
      (NewClient \<lparr>APIKey = ''k'', TestMode = True, BaseURL = ''https://x.test/v1?pageNum=7&x='',
                 Timeout = 0, HTTPClient = None\<rparr>)
      ''/api/products/list'' (Some [''pageNum'' \<mapsto> '''']) [''pageNum'']
     = Inr ''https://x.test/v1?pageNum=7&x=%2Fapi%2Fproducts%2Flist''
   \<and> ''pageNum'' \<in> fst ` set (encode_pairs (makeRequest_query [''pageNum'' \<mapsto> '''']
         (ParseQuery ''pageNum=7&x=/api/products/list'') [''pageNum'']))"
  by code_simp

subsection \<open>Ids in endpoint paths\<close>





subsection \<open>JSON round trip\<close>













text \<open>An integer in the metadata comes back as a \<open>float64\<close>.\<close>

lemma int_metadata_comes_back_float:
  "ToJSON CheckoutRequest_type (CheckoutRequest_value
      \<lparr>ProductID = ''prod_1'', Customer = None, RequestID = None, Units = None,
       SuccessURL = None, Metadata = Some [(''n'', VInt 1)]\<rparr>)
     = Some (JObject [(''product_id'', JString ''prod_1''),
                      (''metadata'', JObject [(''n'', JNumber 1)])])
   \<and> FromJSON CheckoutRequest_type
       (JObject [(''product_id'', JString ''prod_1''),
                 (''metadata'', JObject [(''n'', JNumber 1)])])
       (zero CheckoutRequest_type)
     = Some (CheckoutRequest_value
      \<lparr>ProductID = ''prod_1'', Customer = None, RequestID = None, Units = None,
       SuccessURL = None, Metadata = Some [(''n'', VFloat64 (Finite 1))]\<rparr>)"
  by (simp add: ToJSON_def FromJSON_def CheckoutRequest_type_def Customer_type_def
      optional_def required_def CheckoutRequest_value_def string_ptr_def)

end
